theory Spec2Isabelle
  imports Complex_Main "HOL-Library.AList"
begin

section \<open>Data model (room-manager.ts, game-manager.ts)\<close>

text \<open>
  A JavaScript \<open>Map\<close> iterates in insertion order, \<open>set\<close> on a present key keeps the
  key's position and \<open>set\<close> on a new key appends it: this is \<open>AList.update\<close> on an
  association list, \<open>delete\<close> is \<open>AList.delete\<close>, \<open>get\<close> is \<open>map_of\<close> and \<open>size\<close> is
  the length of the list (the lists built by these operations have distinct keys).
  A WebSocket is a handle (a number); whether it is OPEN at the time of a send is
  read from the environment. Timestamps are milliseconds as natural numbers.
\<close>

type_synonym socket = nat

text \<open>\<open>Player\<close> of room-manager.ts: the entries of \<open>room.players\<close>.\<close>

record Player =
  p_id :: string
  p_name :: string
  p_socket :: socket
  p_isHost :: bool
  p_isReady :: bool
  p_score :: nat

text \<open>\<open>Player\<close> of game-manager.ts: the entries of \<open>GameManager.onlinePlayers\<close>.\<close>

record GPlayer =
  g_id :: string
  g_name :: string
  g_socket :: socket
  g_isReady :: bool
  g_score :: nat
  g_board :: "nat list"
  g_markedNumbers :: "nat set"
  g_joinedAt :: nat

record Settings =
  autoCallNumbers :: bool
  callInterval :: nat
  winPatterns :: "string list"

record Room =
  r_id :: string
  r_code :: string
  r_name :: string
  hostId :: string
  hostName :: string
  gameType :: string
  stake :: int
  maxPlayers :: int
  players :: "(string \<times> Player) list"
  gameStarted :: bool
  createdAt :: nat
  settings :: Settings

text \<open>
  The process state: the fields of \<open>RoomManager\<close> (\<open>rooms\<close>, \<open>roomCodes\<close>, which the
  source declares as a Set and constructs as a Map from a code to itself), the fields
  of \<open>GameManager\<close>, and the callbacks registered with \<open>setTimeout\<close> that have not run
  yet, each with the time at which it is due and the room code it closes over.
\<close>

record Server =
  rooms :: "(string \<times> Room) list"
  roomCodes :: "(string \<times> string) list"
  onlinePlayers :: "(string \<times> GPlayer) list"
  totalPlayers :: nat
  activeGames :: nat
  totalRoomsCreated :: nat
  timers :: "(nat \<times> string) list"

text \<open>Messages the server sends (the \<open>type\<close> field of the JSON is the constructor).\<close>

datatype OutMsg =
    Welcome string string string string string int int
  | PlayerJoined string string nat nat
  | PlayerLeft string "string option" nat "string option"
  | NewHost string string nat
  | GameStarted string "nat list" nat
  | NumberCalled nat string "string option" nat
  | PlayerMarked "string option" "string option" "int option" nat
  | Winner "string option" "string option" "string option" int nat

text \<open>
  What one handler run reads from outside the process state: \<open>Date.now()\<close>, the result
  of \<open>v4.generate()\<close>, the result of \<open>Math.random()\<close>, the board produced by
  \<open>generateBoard\<close>, and the sockets whose \<open>readyState\<close> is OPEN.
\<close>

record Env =
  now :: nat
  uuid :: string
  random :: real
  newBoard :: "nat list"
  isOpen :: "socket \<Rightarrow> bool"

section \<open>GameManager (game-manager.ts)\<close>

definition addPlayer :: "GPlayer \<Rightarrow> Server \<Rightarrow> Server" where
  "addPlayer player s =
     s\<lparr>onlinePlayers := AList.update (g_id player) player (onlinePlayers s),
       totalPlayers := totalPlayers s + 1\<rparr>"

definition removePlayer :: "string \<Rightarrow> Server \<Rightarrow> Server" where
  "removePlayer playerId s = s\<lparr>onlinePlayers := AList.delete playerId (onlinePlayers s)\<rparr>"

section \<open>RoomManager (room-manager.ts)\<close>

datatype JoinResult =
    JoinFailure string
  | JoinSuccess string string string int string int nat Settings

text \<open>
  \<open>joinRoom\<close>, the handler of POST /api/rooms/join. The fields of the success
  value are playerId, roomName, hostName, maxPlayers, gameType, stake,
  currentPlayers and settings. The state is threaded through as for every other
  method of the class.
\<close>

definition joinRoom :: "Env \<Rightarrow> string \<Rightarrow> string \<Rightarrow> Server \<Rightarrow> JoinResult \<times> Server" where
  "joinRoom env roomCode playerName s =
     (case map_of (rooms s) roomCode of
        None \<Rightarrow> (JoinFailure ''Room not found'', s)
      | Some room \<Rightarrow>
          if int (length (players room)) \<ge> maxPlayers room
          then (JoinFailure ''Room is full'', s)
          else if gameStarted room
          then (JoinFailure ''Game has already started'', s)
          else (JoinSuccess (uuid env) (r_name room) (hostName room) (maxPlayers room)
                  (gameType room) (stake room) (length (players room) + 1) (settings room), s))"

definition addPlayerToRoom :: "Env \<Rightarrow> string \<Rightarrow> string \<Rightarrow> socket \<Rightarrow> string \<Rightarrow> Server \<Rightarrow> Server" where
  "addPlayerToRoom env roomCode playerId sock playerName s =
     (case map_of (rooms s) roomCode of
        None \<Rightarrow> s
      | Some room \<Rightarrow>
          let (isHost, room1) =
                (if length (players room) = 0
                 then (True, room\<lparr>hostId := playerId, hostName := playerName\<rparr>)
                 else if hostId room = playerId then (True, room)
                 else (False, room));
              player = \<lparr>p_id = playerId, p_name = playerName, p_socket = sock,
                        p_isHost = isHost, p_isReady = False, p_score = 0\<rparr>;
              room2 = room1\<lparr>players := AList.update playerId player (players room1)\<rparr>
          in addPlayer \<lparr>g_id = playerId, g_name = playerName, g_socket = sock,
                         g_isReady = False, g_score = 0, g_board = [],
                         g_markedNumbers = {}, g_joinedAt = now env\<rparr>
               (s\<lparr>rooms := AList.update roomCode room2 (rooms s)\<rparr>))"

text \<open>
  The private \<open>broadcastToRoom\<close> of RoomManager: one send per player of the room
  whose socket is OPEN, in the order of the map.
\<close>

definition rm_broadcastToRoom :: "Env \<Rightarrow> string \<Rightarrow> OutMsg \<Rightarrow> Server \<Rightarrow> (socket \<times> OutMsg) list" where
  "rm_broadcastToRoom env roomCode message s =
     (case map_of (rooms s) roomCode of
        None \<Rightarrow> []
      | Some room \<Rightarrow>
          map (\<lambda>(k, player). (p_socket player, message))
            (filter (\<lambda>(k, player). isOpen env (p_socket player)) (players room)))"

text \<open>The callback that \<open>removePlayerFromRoom\<close> hands to \<open>setTimeout\<close>.\<close>

definition evictionCheck :: "string \<Rightarrow> Server \<Rightarrow> Server" where
  "evictionCheck roomCode s =
     (case map_of (rooms s) roomCode of
        None \<Rightarrow> s
      | Some room \<Rightarrow>
          if length (players room) = 0
          then s\<lparr>rooms := AList.delete roomCode (rooms s),
                 roomCodes := AList.delete roomCode (roomCodes s)\<rparr>
          else s)"

text \<open>
  \<open>removePlayerFromRoom\<close> returns the new state and the sends of its newHost
  broadcast. The new host is the first value of the map after the deletion;
  the timer is registered for 300000 ms after the call.
\<close>

definition removePlayerFromRoom :: "Env \<Rightarrow> string \<Rightarrow> string \<Rightarrow> Server \<Rightarrow> Server \<times> (socket \<times> OutMsg) list" where
  "removePlayerFromRoom env roomCode playerId s =
     (case map_of (rooms s) roomCode of
        None \<Rightarrow> (s, [])
      | Some room \<Rightarrow>
          let room1 = room\<lparr>players := AList.delete playerId (players room)\<rparr>;
              s1 = removePlayer playerId (s\<lparr>rooms := AList.update roomCode room1 (rooms s)\<rparr>);
              (s2, out) =
                (if playerId = hostId room \<and> length (players room1) > 0
                 then
                   (case players room1 of
                      (k, newHost) # rest \<Rightarrow>
                        let room2 = room1\<lparr>players := (k, newHost\<lparr>p_isHost := True\<rparr>) # rest,
                                          hostId := p_id newHost, hostName := p_name newHost\<rparr>;
                            s' = s1\<lparr>rooms := AList.update roomCode room2 (rooms s1)\<rparr>
                        in (s', rm_broadcastToRoom env roomCode
                                  (NewHost (p_id newHost) (p_name newHost) (now env)) s')
                    | [] \<Rightarrow> (s1, []))
                 else (s1, []))
          in if length (players room1) = 0
             then (s2\<lparr>timers := timers s2 @ [(now env + 300000, roomCode)]\<rparr>, out)
             else (s2, out))"

definition getRoom :: "string \<Rightarrow> Server \<Rightarrow> Room option" where
  "getRoom roomCode s = map_of (rooms s) roomCode"

section \<open>Draws and win verification (game-manager.ts)\<close>

text \<open>\<open>number.toString()\<close> for a natural number: its decimal digits.\<close>

fun numToString :: "nat \<Rightarrow> string" where
  "numToString n =
     (if n < 10 then [''0123456789'' ! n]
      else numToString (n div 10) @ [''0123456789'' ! (n mod 10)])"

declare numToString.simps [simp del]

definition maxNumberOf :: "string \<Rightarrow> nat" where
  "maxNumberOf gt =
     (if gt = ''75ball'' \<or> gt = ''pattern'' then 75
      else if gt = ''90ball'' then 90
      else if gt = ''30ball'' then 30
      else 75)"

text \<open>
  \<open>generateRandomNumber\<close>, with the value \<open>r\<close> of \<open>Math.random()\<close> as an argument
  (\<open>0 \<le> r < 1\<close>). It reads nothing else: neither the room nor any earlier draw.
\<close>

definition generateRandomNumber :: "string \<Rightarrow> real \<Rightarrow> nat \<times> string" where
  "generateRandomNumber gt r =
     (let maxNumber = maxNumberOf gt;
          number = nat \<lfloor>r * real maxNumber\<rfloor> + 1;
          display =
            (if gt = ''75ball'' \<or> gt = ''pattern''
             then
               (let column = (number - 1) div 15;
                    letter = ''BINGO'' ! (min column 4)
                in letter # ''-'' @ numToString number)
             else numToString number)
      in (number, display))"

text \<open>
  \<open>calculatePrize\<close>: \<open>Math.floor(pot * 0.8)\<close>, with 0.8 read as the rational 4/5
  (on integer pots of this size the double product has the same floor).
\<close>

definition calculatePrize :: "int \<Rightarrow> int \<Rightarrow> int" where
  "calculatePrize stk playerCount =
     (let pot = stk * playerCount in \<lfloor>real_of_int pot * (8 / 10)\<rfloor>)"

definition verifyWin :: "string option \<Rightarrow> string option \<Rightarrow> string \<Rightarrow> bool \<times> int" where
  "verifyWin playerId pattern roomCode =
     (let patterns = [''row'', ''column'', ''diagonal'', ''four-corners'', ''full-house'',
                      ''one-line'', ''two-lines'', ''x-pattern'', ''frame'']
      in case pattern of
           None \<Rightarrow> (False, 0)
         | Some p \<Rightarrow>
             if p \<in> set patterns then (True, calculatePrize 100 10) else (False, 0))"

section \<open>The WebSocket handler (server.ts)\<close>

text \<open>
  \<open>broadcastToRoom\<close> of server.ts: one send per player of the room, in the order of
  the map, whose key is not the excluded id and whose socket is OPEN. An absent
  third argument (\<open>undefined\<close>) excludes nobody.
\<close>

definition broadcastToRoom :: "Env \<Rightarrow> string \<Rightarrow> OutMsg \<Rightarrow> string option \<Rightarrow> Server \<Rightarrow> (socket \<times> OutMsg) list" where
  "broadcastToRoom env roomCode message excludePlayerId s =
     (case getRoom roomCode s of
        None \<Rightarrow> []
      | Some room \<Rightarrow>
          map (\<lambda>(playerId, player). (p_socket player, message))
            (filter (\<lambda>(playerId, player). Some playerId \<noteq> excludePlayerId \<and> isOpen env (p_socket player))
               (players room)))"

text \<open>
  The messages of a client, with the fields of the JSON object the handler reads;
  a field that is absent is \<open>None\<close>. \<open>Join\<close> and \<open>Leave\<close> carry playerId and playerName;
  \<open>StartGame\<close> playerId; \<open>CallNumber\<close> playerId and playerName; \<open>MarkNumber\<close>
  playerId, playerName and number; \<open>ClaimWin\<close> playerId, playerName and pattern.
  (chat, ping, playerReady and updateSettings, which touch neither membership nor
  the game flag, are not modelled.)
\<close>

datatype ClientMsg =
    Join "string option" "string option"
  | Leave "string option" "string option"
  | StartGame "string option"
  | CallNumber "string option" "string option"
  | MarkNumber "string option" "string option" "int option"
  | ClaimWin "string option" "string option" "string option"

text \<open>The local variables \<open>playerId\<close> and \<open>playerName\<close> of \<open>handleWsConnection\<close>.\<close>

record Conn =
  c_playerId :: "string option"
  c_playerName :: string

definition newConn :: Conn where
  "newConn = \<lparr>c_playerId = None, c_playerName = ''Anonymous''\<rparr>"

text \<open>\<open>x || d\<close> on an optional string: the empty string is falsy as well.\<close>

definition orElse :: "string option \<Rightarrow> string \<Rightarrow> string" where
  "orElse x d = (case x of None \<Rightarrow> d | Some v \<Rightarrow> if v = [] then d else v)"

text \<open>
  One iteration of the message loop: the \<open>switch\<close> on \<open>data.type\<close>. The result is
  the connection's variables, the state, and the sends in the order they happen.
\<close>

fun handleMessage :: "Env \<Rightarrow> socket \<Rightarrow> string \<Rightarrow> Conn \<Rightarrow> ClientMsg \<Rightarrow> Server \<Rightarrow> Conn \<times> Server \<times> (socket \<times> OutMsg) list" where
  "handleMessage env sock roomCode conn (Join dPlayerId dPlayerName) s =
     (let playerId = orElse dPlayerId (uuid env);
          playerName = orElse dPlayerName (''Player '' @ take 8 playerId);
          conn' = \<lparr>c_playerId = Some playerId, c_playerName = playerName\<rparr>;
          s' = addPlayerToRoom env roomCode playerId sock playerName s
      in case getRoom roomCode s' of
           None \<Rightarrow> (conn', s', [])
         | Some room \<Rightarrow>
             (conn', s',
              (sock, Welcome playerId (r_code room) (r_name room) (hostId room)
                       (gameType room) (stake room) (maxPlayers room))
              # broadcastToRoom env roomCode
                  (PlayerJoined playerId playerName (now env) (length (players room)))
                  (Some playerId) s'))"
| "handleMessage env sock roomCode conn (Leave dPlayerId dPlayerName) s =
     (case dPlayerId of
        None \<Rightarrow> (conn, s, [])
      | Some playerId \<Rightarrow>
          if playerId = [] then (conn, s, [])
          else
            (let (s', out) = removePlayerFromRoom env roomCode playerId s
             in (conn, s',
                 out @ broadcastToRoom env roomCode
                         (PlayerLeft playerId dPlayerName (now env) None) None s')))"
| "handleMessage env sock roomCode conn (StartGame dPlayerId) s =
     (case getRoom roomCode s of
        None \<Rightarrow> (conn, s, [])
      | Some roomInfo \<Rightarrow>
          if Some (hostId roomInfo) = dPlayerId \<and> \<not> gameStarted roomInfo
          then
            (let s' = s\<lparr>rooms := AList.update roomCode (roomInfo\<lparr>gameStarted := True\<rparr>) (rooms s)\<rparr>
             in (conn, s',
                 broadcastToRoom env roomCode
                   (GameStarted (gameType roomInfo) (newBoard env) (now env)) None s'))
          else (conn, s, []))"
| "handleMessage env sock roomCode conn (CallNumber dPlayerId dPlayerName) s =
     (case getRoom roomCode s of
        None \<Rightarrow> (conn, s, [])
      | Some currentRoom \<Rightarrow>
          if Some (hostId currentRoom) = dPlayerId \<and> gameStarted currentRoom
          then
            (let (number, display) = generateRandomNumber (gameType currentRoom) (random env)
             in (conn, s,
                 broadcastToRoom env roomCode
                   (NumberCalled number display dPlayerName (now env)) None s))
          else (conn, s, []))"
| "handleMessage env sock roomCode conn (MarkNumber dPlayerId dPlayerName dNumber) s =
     (conn, s,
      broadcastToRoom env roomCode
        (PlayerMarked dPlayerId dPlayerName dNumber (now env)) dPlayerId s)"
| "handleMessage env sock roomCode conn (ClaimWin dPlayerId dPlayerName dPattern) s =
     (let (valid, amount) = verifyWin dPlayerId dPattern roomCode
      in if valid
         then
           (let out = broadcastToRoom env roomCode
                        (Winner dPlayerId dPlayerName dPattern amount (now env)) None s
            in case getRoom roomCode s of
                 None \<Rightarrow> (conn, s, out)
               | Some roomToEnd \<Rightarrow>
                   (conn,
                    s\<lparr>rooms := AList.update roomCode (roomToEnd\<lparr>gameStarted := False\<rparr>) (rooms s)\<rparr>,
                    out))
         else (conn, s, []))"

text \<open>
  The \<open>finally\<close> block of \<open>handleWsConnection\<close>, run when the connection ends.
\<close>

definition handleClose :: "Env \<Rightarrow> string \<Rightarrow> Conn \<Rightarrow> Server \<Rightarrow> Server \<times> (socket \<times> OutMsg) list" where
  "handleClose env roomCode conn s =
     (case c_playerId conn of
        None \<Rightarrow> (s, [])
      | Some playerId \<Rightarrow>
          let (s', out) = removePlayerFromRoom env roomCode playerId s
          in (s', out @ broadcastToRoom env roomCode
                          (PlayerLeft playerId (Some (c_playerName conn)) (now env)
                             (Some ''disconnected'')) None s'))"

text \<open>
  A run of the message loop of one connection over several messages, each with
  the environment it is handled in; the sends are concatenated in order.
\<close>

fun handleMessages :: "socket \<Rightarrow> string \<Rightarrow> Conn \<Rightarrow> (Env \<times> ClientMsg) list \<Rightarrow> Server \<Rightarrow> Conn \<times> Server \<times> (socket \<times> OutMsg) list" where
  "handleMessages sock roomCode conn [] s = (conn, s, [])"
| "handleMessages sock roomCode conn ((env, m) # ms) s =
     (let (conn1, s1, out1) = handleMessage env sock roomCode conn m s;
          (conn2, s2, out2) = handleMessages sock roomCode conn1 ms s1
      in (conn2, s2, out1 @ out2))"

section \<open>Room codes and room creation (room-manager.ts)\<close>

text \<open>
  The vocabulary of \<open>generateRoomCode\<close>: twelve Ethiopic words, written here in
  Latin transliteration. They are pairwise distinct and none contains a hyphen.
\<close>

definition words :: "string list" where
  "words = [''lemin'', ''bingo'', ''asefa'', ''desta'', ''idil'', ''shilimat'',
            ''destegna'', ''ashenafi'', ''chans'', ''chewata'', ''des'', ''hono'']"

text \<open>\<open>words[i]\<close> inside a template string: an index out of range prints as undefined.\<close>

definition wordAt :: "int \<Rightarrow> string" where
  "wordAt i = (if 0 \<le> i \<and> i < int (length words) then words ! nat i else ''undefined'')"

definition drawCode :: "real \<Rightarrow> real \<Rightarrow> string" where
  "drawCode r1 r2 =
     (let word1 = wordAt \<lfloor>r1 * real (length words)\<rfloor>;
          word2 = wordAt \<lfloor>r2 * real (length words)\<rfloor>
      in word1 @ ''-'' @ word2)"

text \<open>
  The \<open>do ... while (this.roomCodes.has(code))\<close> loop. \<open>rnd\<close> is the sequence of the
  values of \<open>Math.random()\<close>; iteration \<open>k\<close> (from 0) reads \<open>rnd (2 * k)\<close> and
  \<open>rnd (2 * k + 1)\<close>. The loop has no bound, so the function is partial: \<open>None\<close> is
  a run that never leaves the loop.
\<close>

partial_function (option) generateRoomCode_loop :: "(nat \<Rightarrow> real) \<Rightarrow> nat \<Rightarrow> (string \<times> string) list \<Rightarrow> string option" where
  "generateRoomCode_loop rnd k codes =
     (let code = drawCode (rnd (2 * k)) (rnd (2 * k + 1))
      in if map_of codes code \<noteq> None
         then generateRoomCode_loop rnd (Suc k) codes
         else Some code)"

definition generateRoomCode :: "(nat \<Rightarrow> real) \<Rightarrow> Server \<Rightarrow> (string \<times> Server) option" where
  "generateRoomCode rnd s =
     (case generateRoomCode_loop rnd 0 (roomCodes s) of
        None \<Rightarrow> None
      | Some code \<Rightarrow> Some (code, s\<lparr>roomCodes := AList.update code code (roomCodes s)\<rparr>))"

definition getWinPatterns :: "string \<Rightarrow> string list" where
  "getWinPatterns gt =
     (if gt = ''75ball'' then [''row'', ''column'', ''diagonal'', ''four-corners'', ''full-house'']
      else if gt = ''90ball'' then [''one-line'', ''two-lines'', ''full-house'']
      else if gt = ''30ball'' then [''full-house'']
      else if gt = ''pattern'' then [''x-pattern'', ''frame'', ''postage-stamp'', ''small-diamond'']
      else [''row'', ''column'', ''diagonal'', ''four-corners'', ''full-house''])"

record CreateData =
  d_hostName :: string
  d_roomName :: string
  d_maxPlayers :: int
  d_gameType :: string
  d_stake :: int

text \<open>
  \<open>createRoom\<close>; \<open>roomId\<close> and \<open>playerId\<close> are the two values of \<open>v4.generate()\<close>. The
  success value is (roomCode, roomId, playerId). \<open>None\<close> is a call that does not
  return because \<open>generateRoomCode\<close> does not.
\<close>

definition createRoom :: "(nat \<Rightarrow> real) \<Rightarrow> Env \<Rightarrow> string \<Rightarrow> string \<Rightarrow> CreateData \<Rightarrow> Server \<Rightarrow> ((string \<times> string \<times> string) \<times> Server) option" where
  "createRoom rnd env roomId playerId d s =
     (case generateRoomCode rnd s of
        None \<Rightarrow> None
      | Some (roomCode, s1) \<Rightarrow>
          let room = \<lparr>r_id = roomId, r_code = roomCode, r_name = d_roomName d,
                      hostId = roomId, hostName = d_hostName d, gameType = d_gameType d,
                      stake = d_stake d, maxPlayers = d_maxPlayers d, players = [],
                      gameStarted = False, createdAt = now env,
                      settings = \<lparr>autoCallNumbers = True, callInterval = 7000,
                                   winPatterns = getWinPatterns (d_gameType d)\<rparr>\<rparr>
          in Some ((roomCode, roomId, playerId),
                   s1\<lparr>rooms := AList.update roomCode room (rooms s1),
                      totalRoomsCreated := totalRoomsCreated s1 + 1\<rparr>))"

section \<open>Timers\<close>

text \<open>
  The event loop at time \<open>t\<close>: every registered callback that is due runs, in the
  order of registration, and is not pending any more.
\<close>

definition advanceTo :: "nat \<Rightarrow> Server \<Rightarrow> Server" where
  "advanceTo t s =
     (let due = filter (\<lambda>(d, c). d \<le> t) (timers s);
          s' = s\<lparr>timers := filter (\<lambda>(d, c). \<not> d \<le> t) (timers s)\<rparr>
      in fold (\<lambda>(d, c). evictionCheck c) due s')"

section \<open>Derived notions used in the statements\<close>

definition playerIds :: "Room \<Rightarrow> string list" where
  "playerIds room = map fst (players room)"

text \<open>\<open>joinedAt\<close> of a player: the field of the player's entry in \<open>onlinePlayers\<close>.\<close>

definition joinedAtOf :: "Server \<Rightarrow> string \<Rightarrow> nat option" where
  "joinedAtOf s playerId = map_option g_joinedAt (map_of (onlinePlayers s) playerId)"

text \<open>The keys of \<open>players\<close> are the ids of the players stored under them.\<close>

definition keysAreIds :: "Room \<Rightarrow> bool" where
  "keysAreIds room = list_all (\<lambda>(k, player). p_id player = k) (players room)"

text \<open>Every code that the vocabulary can form, as a \<open>roomCodes\<close> map.\<close>

definition allCodes :: "(string \<times> string) list" where
  "allCodes = concat (map (\<lambda>w1. map (\<lambda>w2. (w1 @ ''-'' @ w2, w1 @ ''-'' @ w2)) words) words)"

text \<open>
  The code that iteration \<open>k\<close> of the loop of \<open>generateRoomCode\<close> forms, and whether
  it is free, that is, not a key of \<open>roomCodes\<close>.
\<close>

definition codeAt :: "(nat \<Rightarrow> real) \<Rightarrow> nat \<Rightarrow> string" where
  "codeAt rnd k = drawCode (rnd (2 * k)) (rnd (2 * k + 1))"

definition freeAt :: "(nat \<Rightarrow> real) \<Rightarrow> (string \<times> string) list \<Rightarrow> nat \<Rightarrow> bool" where
  "freeAt rnd codes k = (map_of codes (codeAt rnd k) = None)"

text \<open>The numbers that a socket has received in numberCalled messages, in order.\<close>

definition calledNumbersOf :: "(socket \<times> OutMsg) list \<Rightarrow> socket \<Rightarrow> nat list" where
  "calledNumbersOf out sock =
     concat (map (\<lambda>(k, m). case m of NumberCalled n d c t \<Rightarrow> (if k = sock then [n] else []) | _ \<Rightarrow> []) out)"

text \<open>A room is gone: neither in the registry nor among the live codes.\<close>

definition gone :: "string \<Rightarrow> Server \<Rightarrow> bool" where
  "gone rc s = (getRoom rc s = None \<and> map_of (roomCodes s) rc = None)"

section \<open>A concrete session\<close>

text \<open>
  A 75-ball room with stake 100 and four places, as \<open>createRoom\<close> stores it, and the
  states after the players p1 to p4 have sent their join messages at times 1 to 4
  on sockets 1 to 4, and after the host p1 has started the game at time 5.
\<close>

definition envAt :: "nat \<Rightarrow> Env" where
  "envAt t = \<lparr>now = t, uuid = ''u'', random = 0, newBoard = [], isOpen = (\<lambda>k. True)\<rparr>"

definition zeroRandom :: "nat \<Rightarrow> real" where
  "zeroRandom k = 0"

definition emptyServer :: Server where
  "emptyServer = \<lparr>rooms = [], roomCodes = [], onlinePlayers = [], totalPlayers = 0,
                    activeGames = 0, totalRoomsCreated = 0, timers = []\<rparr>"

definition demoData :: CreateData where
  "demoData = \<lparr>d_hostName = ''Abebe'', d_roomName = ''Room'', d_maxPlayers = 4,
                 d_gameType = ''75ball'', d_stake = 100\<rparr>"

definition demoRoom :: Room where
  "demoRoom = \<lparr>r_id = ''rid'', r_code = ''lemin-lemin'', r_name = ''Room'',
                 hostId = ''rid'', hostName = ''Abebe'', gameType = ''75ball'',
                 stake = 100, maxPlayers = 4, players = [],
                 gameStarted = False, createdAt = 0,
                 settings = \<lparr>autoCallNumbers = True, callInterval = 7000,
                              winPatterns = [''row'', ''column'', ''diagonal'', ''four-corners'', ''full-house'']\<rparr>\<rparr>"

definition server0 :: Server where
  "server0 = \<lparr>rooms = [(''lemin-lemin'', demoRoom)], roomCodes = [(''lemin-lemin'', ''lemin-lemin'')],
                onlinePlayers = [], totalPlayers = 0,
                activeGames = 0, totalRoomsCreated = 1, timers = []\<rparr>"

definition joinAs :: "nat \<Rightarrow> socket \<Rightarrow> string \<Rightarrow> Server \<Rightarrow> Server" where
  "joinAs t sock playerId s =
     fst (snd (handleMessage (envAt t) sock ''lemin-lemin'' newConn (Join (Some playerId) (Some playerId)) s))"

definition server1 :: Server where
  "server1 = joinAs 1 1 ''p1'' server0"

definition server2 :: Server where
  "server2 = joinAs 2 2 ''p2'' server1"

definition server3 :: Server where
  "server3 = joinAs 3 3 ''p3'' server2"

definition server4 :: Server where
  "server4 = joinAs 4 4 ''p4'' server3"

definition serverStarted :: Server where
  "serverStarted =
     fst (snd (handleMessage (envAt 5) 1 ''lemin-lemin'' newConn (StartGame (Some ''p1'')) server4))"

text \<open>The same states written out: the first \<open>n\<close> of the four players have joined.\<close>

definition p4list :: "(string \<times> Player) list" where
  "p4list =
     [(''p1'', \<lparr>p_id = ''p1'', p_name = ''p1'', p_socket = 1, p_isHost = True, p_isReady = False, p_score = 0\<rparr>),
      (''p2'', \<lparr>p_id = ''p2'', p_name = ''p2'', p_socket = 2, p_isHost = False, p_isReady = False, p_score = 0\<rparr>),
      (''p3'', \<lparr>p_id = ''p3'', p_name = ''p3'', p_socket = 3, p_isHost = False, p_isReady = False, p_score = 0\<rparr>),
      (''p4'', \<lparr>p_id = ''p4'', p_name = ''p4'', p_socket = 4, p_isHost = False, p_isReady = False, p_score = 0\<rparr>)]"

definition g4list :: "(string \<times> GPlayer) list" where
  "g4list =
     map (\<lambda>(k, p). (k, \<lparr>g_id = k, g_name = k, g_socket = p_socket p, g_isReady = False,
                          g_score = 0, g_board = [], g_markedNumbers = {},
                          g_joinedAt = p_socket p\<rparr>)) p4list"

definition serverWith :: "nat \<Rightarrow> bool \<Rightarrow> Server" where
  "serverWith n started =
     \<lparr>rooms = [(''lemin-lemin'',
                 demoRoom\<lparr>hostId := ''p1'', hostName := ''p1'', players := take n p4list,
                          gameStarted := started\<rparr>)],
      roomCodes = [(''lemin-lemin'', ''lemin-lemin'')],
      onlinePlayers = take n g4list, totalPlayers = n,
      activeGames = 0, totalRoomsCreated = 1, timers = []\<rparr>"

text \<open>The state after p2 has claimed full-house at time 6 in the started game.\<close>

definition serverResolved :: Server where
  "serverResolved =
     fst (snd (handleMessage (envAt 6) 2 ''lemin-lemin'' newConn
                 (ClaimWin (Some ''p2'') (Some ''p2'') (Some ''full-house'')) serverStarted))"

text \<open>
  Another continuation of \<open>server3\<close>: p2 sends its join message a second time at
  time 4, then the host p1 leaves at time 5.
\<close>

definition serverRejoined :: Server where
  "serverRejoined = joinAs 4 2 ''p2'' server3"

definition serverHostLeft :: Server where
  "serverHostLeft =
     fst (snd (handleMessage (envAt 5) 1 ''lemin-lemin'' newConn
                 (Leave (Some ''p1'') (Some ''p1'')) serverRejoined))"

text \<open>
  A third continuation, from \<open>server1\<close>: the only player p1 leaves at time 10, p2
  joins at time 20 and leaves at time 30, p3 joins at time 40.
\<close>

definition serverEmptied :: Server where
  "serverEmptied = fst (removePlayerFromRoom (envAt 10) ''lemin-lemin'' ''p1'' server1)"

definition serverRegained :: Server where
  "serverRegained = joinAs 20 2 ''p2'' serverEmptied"

definition serverEmptiedAgain :: Server where
  "serverEmptiedAgain = fst (removePlayerFromRoom (envAt 30) ''lemin-lemin'' ''p2'' serverRegained)"

definition serverRegainedAgain :: Server where
  "serverRegainedAgain = joinAs 40 3 ''p3'' serverEmptiedAgain"

section \<open>The concrete session, evaluated\<close>

lemmas join_defs = joinAs_def envAt_def newConn_def orElse_def
  addPlayerToRoom_def addPlayer_def getRoom_def broadcastToRoom_def Let_def

lemma server1_eq: "server1 = serverWith 1 False"
  by (simp add: server1_def server0_def serverWith_def demoRoom_def join_defs p4list_def g4list_def)

lemma server2_eq: "server2 = serverWith 2 False"
  by (simp add: server2_def server1_eq serverWith_def demoRoom_def join_defs p4list_def g4list_def)

lemma server3_eq: "server3 = serverWith 3 False"
  by (simp add: server3_def server2_eq serverWith_def demoRoom_def join_defs p4list_def g4list_def)

lemma server4_eq: "server4 = serverWith 4 False"
  by (simp add: server4_def server3_eq serverWith_def demoRoom_def join_defs p4list_def g4list_def)

lemma serverStarted_eq: "serverStarted = serverWith 4 True"
  by (simp add: serverStarted_def server4_eq serverWith_def getRoom_def demoRoom_def Let_def)

lemmas eval_defs = broadcastToRoom_def getRoom_def serverStarted_eq server4_eq server3_eq
  serverWith_def p4list_def g4list_def envAt_def demoRoom_def Let_def

lemma calculatePrize_100_10: "calculatePrize 100 10 = 800"
  by (simp add: calculatePrize_def)

lemma verifyWin_known:
  "p \<in> set [''row'', ''column'', ''diagonal'', ''four-corners'', ''full-house'',
              ''one-line'', ''two-lines'', ''x-pattern'', ''frame'']
   \<Longrightarrow> verifyWin pid (Some p) rc = (True, 800)"
  unfolding verifyWin_def Let_def calculatePrize_100_10 by simp

lemma serverResolved_eq: "serverResolved = serverWith 4 False"
  by (simp add: serverResolved_def verifyWin_known eval_defs)

lemma gen_half_90: "generateRandomNumber ''90ball'' (1/2) = (46, ''46'')"
  by (simp add: generateRandomNumber_def maxNumberOf_def numToString.simps)

lemmas leave_defs = removePlayerFromRoom_def removePlayer_def rm_broadcastToRoom_def AList.delete_eq

lemma serverEmptied_eq:
  "serverEmptied = (serverWith 0 False)\<lparr>totalPlayers := 1, timers := [(300010, ''lemin-lemin'')]\<rparr>"
  by (simp add: serverEmptied_def server1_eq serverWith_def leave_defs p4list_def g4list_def envAt_def demoRoom_def)

lemma serverRegained_rooms:
  "rooms serverRegained = [(''lemin-lemin'', demoRoom\<lparr>hostId := ''p2'', hostName := ''p2'',
       players := [(''p2'', \<lparr>p_id = ''p2'', p_name = ''p2'', p_socket = 2, p_isHost = True, p_isReady = False, p_score = 0\<rparr>)]\<rparr>)]"
  "timers serverRegained = [(300010, ''lemin-lemin'')]"
  "onlinePlayers serverRegained = [(''p2'', \<lparr>g_id = ''p2'', g_name = ''p2'', g_socket = 2, g_isReady = False,
                          g_score = 0, g_board = [], g_markedNumbers = {}, g_joinedAt = 20\<rparr>)]"
  "roomCodes serverRegained = [(''lemin-lemin'', ''lemin-lemin'')]"
  by (simp_all add: serverRegained_def serverEmptied_eq serverWith_def join_defs demoRoom_def)

lemma serverEmptiedAgain_rooms:
  "rooms serverEmptiedAgain = [(''lemin-lemin'', demoRoom\<lparr>hostId := ''p2'', hostName := ''p2''\<rparr>)]"
  "timers serverEmptiedAgain = [(300010, ''lemin-lemin''), (300030, ''lemin-lemin'')]"
  "roomCodes serverEmptiedAgain = [(''lemin-lemin'', ''lemin-lemin'')]"
  by (simp_all add: serverEmptiedAgain_def serverRegained_rooms leave_defs envAt_def demoRoom_def Let_def)

lemma serverRegainedAgain_rooms:
  "rooms serverRegainedAgain = [(''lemin-lemin'', demoRoom\<lparr>hostId := ''p3'', hostName := ''p3'',
       players := [(''p3'', \<lparr>p_id = ''p3'', p_name = ''p3'', p_socket = 3, p_isHost = True, p_isReady = False, p_score = 0\<rparr>)]\<rparr>)]"
  "timers serverRegainedAgain = [(300010, ''lemin-lemin''), (300030, ''lemin-lemin'')]"
  by (simp_all add: serverRegainedAgain_def serverEmptiedAgain_rooms join_defs demoRoom_def)

lemma generate_zero_75: "generateRandomNumber ''75ball'' 0 = (1, ''B-1'')"
  by (simp add: generateRandomNumber_def maxNumberOf_def numToString.simps)

lemma drawCode_zero: "drawCode 0 0 = ''lemin-lemin''"
  by (simp add: drawCode_def wordAt_def words_def)

text \<open>\<open>server0\<close> is the state in which \<open>createRoom\<close> leaves the empty server.\<close>

lemma createRoom_server0:
  "createRoom zeroRandom (envAt 0) ''rid'' ''hid'' demoData emptyServer
     = Some ((''lemin-lemin'', ''rid'', ''hid''), server0)"
proof -
  have "generateRoomCode_loop zeroRandom 0 [] = Some ''lemin-lemin''"
    by (subst generateRoomCode_loop.simps) (simp add: zeroRandom_def drawCode_zero)
  then show ?thesis
    by (simp add: createRoom_def generateRoomCode_def emptyServer_def server0_def demoRoom_def
        demoData_def envAt_def getWinPatterns_def)
qed

section \<open>Win claims\<close>

text \<open>
  C1. The claim: a claimWin in a room whose game is in progress is accepted (a
  winner broadcast goes out) exactly when the claimant's stored board and marked
  numbers, checked against the called numbers and the geometry of the pattern,
  cover the pattern; an uncovered pattern is rejected.
  The code at one input of that kind: the game has just been started by the host,
  no number has been called, the board stored for p2 is empty and p2 has marked
  nothing; p2 claims a row. \<open>verifyWin\<close> looks only at the name of the pattern, and
  the winner message is sent to all four players.
\<close>

theorem claimWin_accepted_without_coverage:
  "map_option gameStarted (getRoom ''lemin-lemin'' serverStarted) = Some True
   \<and> map_option g_board (map_of (onlinePlayers serverStarted) ''p2'') = Some []
   \<and> map_option g_markedNumbers (map_of (onlinePlayers serverStarted) ''p2'') = Some {}
   \<and> snd (snd (handleMessage (envAt 6) 2 ''lemin-lemin'' newConn
                   (ClaimWin (Some ''p2'') (Some ''p2'') (Some ''row'')) serverStarted))
       = [(1, Winner (Some ''p2'') (Some ''p2'') (Some ''row'') 800 6),
          (2, Winner (Some ''p2'') (Some ''p2'') (Some ''row'') 800 6),
          (3, Winner (Some ''p2'') (Some ''p2'') (Some ''row'') 800 6),
          (4, Winner (Some ''p2'') (Some ''p2'') (Some ''row'') 800 6)]"
  by (simp add: verifyWin_known eval_defs)

text \<open>
  C2. The claim: at most one win claim is accepted per game; after the first
  accepted claim has put the room back into the lobby, a further claimWin before
  a new game starts is rejected (GameAlreadyResolved) and no second winner
  broadcast goes out.
  The code on two claims in a row: the first, by p2 at time 6, is broadcast and
  clears \<open>gameStarted\<close>; the second, by p3 at time 7 in the room that is now in the
  lobby, is broadcast as a winner all the same. The claimWin case never reads
  \<open>gameStarted\<close>, which the startGame and callNumber cases do.
\<close>

theorem second_claimWin_also_accepted:
  "snd (snd (handleMessage (envAt 6) 2 ''lemin-lemin'' newConn
               (ClaimWin (Some ''p2'') (Some ''p2'') (Some ''full-house'')) serverStarted))
     = [(1, Winner (Some ''p2'') (Some ''p2'') (Some ''full-house'') 800 6),
        (2, Winner (Some ''p2'') (Some ''p2'') (Some ''full-house'') 800 6),
        (3, Winner (Some ''p2'') (Some ''p2'') (Some ''full-house'') 800 6),
        (4, Winner (Some ''p2'') (Some ''p2'') (Some ''full-house'') 800 6)]
   \<and> map_option gameStarted (getRoom ''lemin-lemin'' serverResolved) = Some False
   \<and> snd (snd (handleMessage (envAt 7) 3 ''lemin-lemin'' newConn
                   (ClaimWin (Some ''p3'') (Some ''p3'') (Some ''full-house'')) serverResolved))
     = [(1, Winner (Some ''p3'') (Some ''p3'') (Some ''full-house'') 800 7),
        (2, Winner (Some ''p3'') (Some ''p3'') (Some ''full-house'') 800 7),
        (3, Winner (Some ''p3'') (Some ''p3'') (Some ''full-house'') 800 7),
        (4, Winner (Some ''p3'') (Some ''p3'') (Some ''full-house'') 800 7)]"
  by (simp add: verifyWin_known serverResolved_eq eval_defs)

text \<open>
  C3. The claim: the amount of the winner broadcast is
  \<open>floor (stake * currentPlayerCount * 0.8)\<close>; for stake 100 and four players, 320.
  The code in the room with stake 100, four places and four players:
  \<open>calculatePrize\<close> applied to the room's stake and player count gives 320, but
  \<open>verifyWin\<close> calls it with the constants 100 and 10, and every winner message
  carries 800.
\<close>

theorem winner_amount_is_800:
  "map_option stake (getRoom ''lemin-lemin'' serverStarted) = Some 100
   \<and> map_option maxPlayers (getRoom ''lemin-lemin'' serverStarted) = Some 4
   \<and> map_option (length \<circ> players) (getRoom ''lemin-lemin'' serverStarted) = Some 4
   \<and> calculatePrize 100 4 = 320
   \<and> map snd (snd (snd (handleMessage (envAt 6) 2 ''lemin-lemin'' newConn
                   (ClaimWin (Some ''p2'') (Some ''p2'') (Some ''full-house'')) serverStarted)))
       = replicate 4 (Winner (Some ''p2'') (Some ''p2'') (Some ''full-house'') 800 6)"
  by (simp add: verifyWin_known eval_defs calculatePrize_def numeral_eq_Suc)

section \<open>Capacity\<close>

text \<open>
  C5. The claim: the number of players of a room never exceeds maxPlayers; a join
  against a full room fails with RoomFull, and neither the HTTP join nor the
  WebSocket join message inserts a player into a full room.
  The code on the full room (four of four): \<open>joinRoom\<close> answers that the room is
  full, but the join message of a fifth player is handled by \<open>addPlayerToRoom\<close>,
  which has no capacity check, and the room then holds five players.
\<close>

theorem ws_join_fills_past_maxPlayers:
  "fst (joinRoom (envAt 5) ''lemin-lemin'' ''p5'' server4) = JoinFailure ''Room is full''
   \<and> map_option (\<lambda>room. (playerIds room, maxPlayers room))
         (getRoom ''lemin-lemin''
            (fst (snd (handleMessage (envAt 5) 5 ''lemin-lemin'' newConn
                         (Join (Some ''p5'') (Some ''p5'')) server4))))
       = Some ([''p1'', ''p2'', ''p3'', ''p4'', ''p5''], 4)"
  by (simp add: joinRoom_def eval_defs playerIds_def join_defs)

section \<open>Draws\<close>

lemma maxNumberOf_cases: "maxNumberOf gt = 75 \<or> maxNumberOf gt = 90 \<or> maxNumberOf gt = 30"
  by (simp add: maxNumberOf_def)

lemma draw_in_range:
  assumes "0 \<le> r" "r < 1"
  shows "1 \<le> fst (generateRandomNumber gt r) \<and> fst (generateRandomNumber gt r) \<le> maxNumberOf gt"
proof -
  let ?m = "maxNumberOf gt"
  have pos: "0 < real ?m" using maxNumberOf_cases[of gt] by auto
  have "r * real ?m < real ?m" using assms pos by simp
  then have "\<lfloor>r * real ?m\<rfloor> < int ?m" by (simp add: floor_less_iff)
  moreover have "0 \<le> \<lfloor>r * real ?m\<rfloor>" using assms by simp
  ultimately have "nat \<lfloor>r * real ?m\<rfloor> < ?m" by (simp add: nat_less_iff)
  then show ?thesis by (simp add: generateRandomNumber_def Let_def)
qed

text \<open>
  C4, as the claim states it: a number drawn by callNumber is never one that was
  already called in the game, so the called numbers have no duplicates, and the
  draw fails with PoolExhausted once the pool is empty.
  The code keeps no record of called numbers and draws from the random value
  alone: the host calls twice with the same random value, and every player
  receives the number 1 twice.
\<close>

theorem callNumber_repeats_number:
  "calledNumbersOf
     (snd (snd (handleMessages 1 ''lemin-lemin'' newConn
                  [(envAt 6, CallNumber (Some ''p1'') (Some ''p1'')),
                   (envAt 7, CallNumber (Some ''p1'') (Some ''p1''))] serverStarted))) 2
   = [1, 1]"
  by (simp add: eval_defs calledNumbersOf_def generate_zero_75)

text \<open>
  C4, amended: each callNumber by the host of a started game draws a number
  between 1 and the size of the variant's range (75, 90 or 30), determined by the
  random value alone, and broadcasts it with its label; the handler leaves the
  state as it is (there is no pool and no record of earlier draws), and the draw
  has no failure outcome.
\<close>

theorem callNumber_draws_in_range:
  "(0 \<le> r \<and> r < 1 \<longrightarrow>
      1 \<le> fst (generateRandomNumber gt r) \<and> fst (generateRandomNumber gt r) \<le> maxNumberOf gt)
   \<and> maxNumberOf gt \<in> {75, 90, 30}
   \<and> (getRoom rc s = Some room \<and> Some (hostId room) = pid \<and> gameStarted room \<longrightarrow>
        handleMessage env sock rc conn (CallNumber pid pname) s =
          (conn, s,
           broadcastToRoom env rc
             (NumberCalled (fst (generateRandomNumber (gameType room) (random env)))
                (snd (generateRandomNumber (gameType room) (random env))) pname (now env)) None s))"
proof (intro conjI impI)
  assume "0 \<le> r \<and> r < 1"
  then show "1 \<le> fst (generateRandomNumber gt r)" "fst (generateRandomNumber gt r) \<le> maxNumberOf gt"
    using draw_in_range[of r gt] by simp_all
next
  show "maxNumberOf gt \<in> {75, 90, 30}" using maxNumberOf_cases[of gt] by auto
next
  assume "getRoom rc s = Some room \<and> Some (hostId room) = pid \<and> gameStarted room"
  then show "handleMessage env sock rc conn (CallNumber pid pname) s =
          (conn, s,
           broadcastToRoom env rc
             (NumberCalled (fst (generateRandomNumber (gameType room) (random env)))
                (snd (generateRandomNumber (gameType room) (random env))) pname (now env)) None s)"
    by (simp add: case_prod_beta)
qed

theorem callNumber_draws_in_range_witness:
  "1 \<le> fst (generateRandomNumber ''90ball'' (1/2))
   \<and> fst (generateRandomNumber ''90ball'' (1/2)) \<le> 90
   \<and> handleMessage (envAt 6) 1 ''lemin-lemin'' newConn (CallNumber (Some ''p1'') (Some ''p1'')) serverStarted
       = (newConn, serverStarted,
          [(1, NumberCalled 1 ''B-1'' (Some ''p1'') 6), (2, NumberCalled 1 ''B-1'' (Some ''p1'') 6),
           (3, NumberCalled 1 ''B-1'' (Some ''p1'') 6), (4, NumberCalled 1 ''B-1'' (Some ''p1'') 6)])"
proof -
  let ?room = "demoRoom\<lparr>hostId := ''p1'', hostName := ''p1'', players := take 4 p4list, gameStarted := True\<rparr>"
  note inst = callNumber_draws_in_range[of "1/2" "''90ball''" "''lemin-lemin''" serverStarted ?room
        "Some ''p1''" "envAt 6" 1 newConn "Some ''p1''"]
  have r: "(0::real) \<le> 1/2 \<and> (1/2::real) < 1" by simp
  have prem: "getRoom ''lemin-lemin'' serverStarted = Some ?room \<and> Some (hostId ?room) = Some ''p1'' \<and> gameStarted ?room"
    by (simp add: getRoom_def serverStarted_eq serverWith_def)
  have m: "maxNumberOf ''90ball'' = 90" by (simp add: maxNumberOf_def)
  from inst r have range: "1 \<le> fst (generateRandomNumber ''90ball'' (1/2))
      \<and> fst (generateRandomNumber ''90ball'' (1/2)) \<le> maxNumberOf ''90ball''" by blast
  from inst prem have hm: "handleMessage (envAt 6) 1 ''lemin-lemin'' newConn (CallNumber (Some ''p1'') (Some ''p1'')) serverStarted =
          (newConn, serverStarted,
           broadcastToRoom (envAt 6) ''lemin-lemin''
             (NumberCalled (fst (generateRandomNumber (gameType ?room) (random (envAt 6))))
                (snd (generateRandomNumber (gameType ?room) (random (envAt 6)))) (Some ''p1'') (now (envAt 6))) None serverStarted)"
    by blast
  have g: "generateRandomNumber (gameType ?room) (random (envAt 6)) = (1, ''B-1'')"
    by (simp add: demoRoom_def envAt_def generate_zero_75)
  have out: "broadcastToRoom (envAt 6) ''lemin-lemin'' (NumberCalled 1 ''B-1'' (Some ''p1'') (now (envAt 6))) None serverStarted
     = [(1, NumberCalled 1 ''B-1'' (Some ''p1'') 6), (2, NumberCalled 1 ''B-1'' (Some ''p1'') 6),
           (3, NumberCalled 1 ''B-1'' (Some ''p1'') 6), (4, NumberCalled 1 ''B-1'' (Some ''p1'') 6)]"
    by (simp add: eval_defs)
  from hm have "handleMessage (envAt 6) 1 ''lemin-lemin'' newConn (CallNumber (Some ''p1'') (Some ''p1'')) serverStarted
       = (newConn, serverStarted,
          [(1, NumberCalled 1 ''B-1'' (Some ''p1'') 6), (2, NumberCalled 1 ''B-1'' (Some ''p1'') 6),
           (3, NumberCalled 1 ''B-1'' (Some ''p1'') 6), (4, NumberCalled 1 ''B-1'' (Some ''p1'') 6)])"
    unfolding g fst_conv snd_conv out .
  with range show ?thesis unfolding m by blast
qed

section \<open>Marks\<close>

text \<open>
  C7, as the claim states it: a markNumber for a number that has not been called
  is rejected with NumberNotCalled and no playerMarked broadcast goes out.
  The code in the game that has just started, where no number has been called:
  p2 marks 7, and the three other players receive playerMarked.
\<close>

theorem markNumber_uncalled_is_relayed:
  "snd (snd (handleMessage (envAt 6) 2 ''lemin-lemin'' newConn
               (MarkNumber (Some ''p2'') (Some ''p2'') (Some 7)) serverStarted))
   = [(1, PlayerMarked (Some ''p2'') (Some ''p2'') (Some 7) 6),
      (3, PlayerMarked (Some ''p2'') (Some ''p2'') (Some 7) 6),
      (4, PlayerMarked (Some ''p2'') (Some ''p2'') (Some 7) 6)]"
  by (simp add: eval_defs)

text \<open>
  C7, amended: every markNumber, whatever its number, is relayed as playerMarked
  to each player of the room other than the sender whose socket is open; it is
  never rejected, and it changes nothing in the state, so no player's marked
  numbers change.
\<close>

theorem markNumber_always_relayed:
  "fst (handleMessage env sock rc conn (MarkNumber pid pname n) s) = conn
   \<and> fst (snd (handleMessage env sock rc conn (MarkNumber pid pname n) s)) = s
   \<and> (getRoom rc s = Some room \<longrightarrow>
        snd (snd (handleMessage env sock rc conn (MarkNumber pid pname n) s)) =
          map (\<lambda>(k, q). (p_socket q, PlayerMarked pid pname n (now env)))
            (filter (\<lambda>(k, q). Some k \<noteq> pid \<and> isOpen env (p_socket q)) (players room)))
   \<and> (getRoom rc s = Some room \<and> (k, q) \<in> set (players room) \<and> Some k \<noteq> pid \<and> isOpen env (p_socket q) \<longrightarrow>
        (p_socket q, PlayerMarked pid pname n (now env))
          \<in> set (snd (snd (handleMessage env sock rc conn (MarkNumber pid pname n) s))))"
  by (auto simp: broadcastToRoom_def intro!: image_eqI)

theorem markNumber_always_relayed_witness:
  "fst (snd (handleMessage (envAt 6) 2 ''lemin-lemin'' newConn (MarkNumber (Some ''p2'') (Some ''p2'') (Some 99)) serverStarted)) = serverStarted
  \<and> (4, PlayerMarked (Some ''p2'') (Some ''p2'') (Some 99) 6) \<in>
     set (snd (snd (handleMessage (envAt 6) 2 ''lemin-lemin'' newConn (MarkNumber (Some ''p2'') (Some ''p2'') (Some 99)) serverStarted)))"
proof -
  let ?room = "demoRoom\<lparr>hostId := ''p1'', hostName := ''p1'', players := take 4 p4list, gameStarted := True\<rparr>"
  let ?q = "\<lparr>p_id = ''p4'', p_name = ''p4'', p_socket = 4, p_isHost = False, p_isReady = False, p_score = 0\<rparr>"
  note inst = markNumber_always_relayed[of "envAt 6" 2 "''lemin-lemin''" newConn "Some ''p2''" "Some ''p2''" "Some 99" serverStarted ?room "''p4''" ?q]
  have prem: "getRoom ''lemin-lemin'' serverStarted = Some ?room \<and> (''p4'', ?q) \<in> set (players ?room)
     \<and> Some ''p4'' \<noteq> Some ''p2'' \<and> isOpen (envAt 6) (p_socket ?q)"
    by (simp add: getRoom_def serverStarted_eq serverWith_def p4list_def envAt_def)
  from inst have a: "fst (snd (handleMessage (envAt 6) 2 ''lemin-lemin'' newConn (MarkNumber (Some ''p2'') (Some ''p2'') (Some 99)) serverStarted)) = serverStarted"
    by blast
  from inst prem have b: "(p_socket ?q, PlayerMarked (Some ''p2'') (Some ''p2'') (Some 99) (now (envAt 6)))
          \<in> set (snd (snd (handleMessage (envAt 6) 2 ''lemin-lemin'' newConn (MarkNumber (Some ''p2'') (Some ''p2'') (Some 99)) serverStarted)))"
    by blast
  have e: "now (envAt 6) = 6" "p_socket ?q = 4" by (simp_all add: envAt_def)
  from a b show ?thesis unfolding e by blast
qed

section \<open>Joining\<close>

lemma joinRoom_state: "snd (joinRoom env rc name s) = s"
  by (simp add: joinRoom_def split: option.splits)

lemma addPlayerToRoom_room:
  assumes "getRoom rc s = Some room"
  shows "\<exists>room'. getRoom rc (addPlayerToRoom env rc pid sock name s) = Some room'
           \<and> map_of (players room') pid \<noteq> None
           \<and> playerIds room' = (if pid \<in> set (playerIds room) then playerIds room else playerIds room @ [pid])"
  using assms
  by (simp add: addPlayerToRoom_def addPlayer_def getRoom_def Let_def update_conv' playerIds_def update_keys)

text \<open>
  C10. A successful HTTP join does not modify the room: \<open>joinRoom\<close> returns the
  generated playerId and the room's metadata (with the player count it would have
  after the join) and leaves the whole state, hence the room's players, hostId and
  every other field, as it was; no HTTP join, successful or not, changes the
  state. The player enters the room when the join message on the WebSocket is
  handled: then the id is a key of the room's players, appended if it was new.
\<close>

theorem http_join_leaves_state_unchanged:
  "snd (joinRoom env rc name s) = s
   \<and> (getRoom rc s = Some room \<and> int (length (players room)) < maxPlayers room \<and> \<not> gameStarted room \<longrightarrow>
        fst (joinRoom env rc name s) =
          JoinSuccess (uuid env) (r_name room) (hostName room) (maxPlayers room)
            (gameType room) (stake room) (length (players room) + 1) (settings room)
        \<and> getRoom rc (snd (joinRoom env rc name s)) = Some room)
   \<and> (getRoom rc s = Some room \<and> pid \<noteq> [] \<longrightarrow>
        (\<exists>room'. getRoom rc (fst (snd (handleMessage env' sock rc conn (Join (Some pid) pname) s))) = Some room'
            \<and> map_of (players room') pid \<noteq> None
            \<and> playerIds room' = (if pid \<in> set (playerIds room) then playerIds room else playerIds room @ [pid])))"
proof (intro conjI impI)
  show "snd (joinRoom env rc name s) = s" by (rule joinRoom_state)
next
  assume a: "getRoom rc s = Some room \<and> int (length (players room)) < maxPlayers room \<and> \<not> gameStarted room"
  then show "fst (joinRoom env rc name s) =
          JoinSuccess (uuid env) (r_name room) (hostName room) (maxPlayers room)
            (gameType room) (stake room) (length (players room) + 1) (settings room)"
    by (simp add: joinRoom_def getRoom_def)
  from a show "getRoom rc (snd (joinRoom env rc name s)) = Some room"
    by (simp add: joinRoom_state)
next
  assume a: "getRoom rc s = Some room \<and> pid \<noteq> []"
  then have o: "orElse (Some pid) (uuid env') = pid" by (simp add: orElse_def)
  have st: "fst (snd (handleMessage env' sock rc conn (Join (Some pid) pname) s))
      = addPlayerToRoom env' rc pid sock (orElse pname (''Player '' @ take 8 pid)) s"
    by (simp add: o Let_def split: option.splits)
  show "\<exists>room'. getRoom rc (fst (snd (handleMessage env' sock rc conn (Join (Some pid) pname) s))) = Some room'
            \<and> map_of (players room') pid \<noteq> None
            \<and> playerIds room' = (if pid \<in> set (playerIds room) then playerIds room else playerIds room @ [pid])"
    unfolding st using a by (intro addPlayerToRoom_room) simp
qed

theorem http_join_leaves_state_unchanged_witness:
  "joinRoom (envAt 2) ''lemin-lemin'' ''Bekele'' server1 =
     (JoinSuccess ''u'' ''Room'' ''p1'' 4 ''75ball'' 100 2
        \<lparr>autoCallNumbers = True, callInterval = 7000,
          winPatterns = [''row'', ''column'', ''diagonal'', ''four-corners'', ''full-house'']\<rparr>, server1)
   \<and> map_option playerIds (getRoom ''lemin-lemin'' server1) = Some [''p1'']
   \<and> map_option playerIds (getRoom ''lemin-lemin''
        (fst (snd (handleMessage (envAt 3) 2 ''lemin-lemin'' newConn (Join (Some ''u'') (Some ''Bekele'')) server1))))
       = Some [''p1'', ''u'']"
proof -
  let ?room = "demoRoom\<lparr>hostId := ''p1'', hostName := ''p1'', players := take 1 p4list, gameStarted := False\<rparr>"
  note inst = http_join_leaves_state_unchanged[of "envAt 2" "''lemin-lemin''" "''Bekele''" server1 ?room "''u''" "envAt 3" 2 newConn "Some ''Bekele''"]
  have prem1: "getRoom ''lemin-lemin'' server1 = Some ?room \<and> int (length (players ?room)) < maxPlayers ?room \<and> \<not> gameStarted ?room"
    by (simp add: getRoom_def server1_eq serverWith_def demoRoom_def p4list_def)
  have prem2: "getRoom ''lemin-lemin'' server1 = Some ?room \<and> ''u'' \<noteq> []"
    using prem1 by simp
  from inst have a: "snd (joinRoom (envAt 2) ''lemin-lemin'' ''Bekele'' server1) = server1" by blast
  from inst prem1 have b: "fst (joinRoom (envAt 2) ''lemin-lemin'' ''Bekele'' server1) =
          JoinSuccess (uuid (envAt 2)) (r_name ?room) (hostName ?room) (maxPlayers ?room)
            (gameType ?room) (stake ?room) (length (players ?room) + 1) (settings ?room)" by blast
  from inst prem2 obtain room' where c: "getRoom ''lemin-lemin'' (fst (snd (handleMessage (envAt 3) 2 ''lemin-lemin'' newConn (Join (Some ''u'') (Some ''Bekele'')) server1))) = Some room'"
     "playerIds room' = (if ''u'' \<in> set (playerIds ?room) then playerIds ?room else playerIds ?room @ [''u''])"
    by blast
  have ids: "playerIds ?room = [''p1'']" by (simp add: playerIds_def p4list_def)
  have "joinRoom (envAt 2) ''lemin-lemin'' ''Bekele'' server1 = (fst (joinRoom (envAt 2) ''lemin-lemin'' ''Bekele'' server1), server1)"
    using a by (metis prod.collapse)
  then have j: "joinRoom (envAt 2) ''lemin-lemin'' ''Bekele'' server1 =
     (JoinSuccess ''u'' ''Room'' ''p1'' 4 ''75ball'' 100 2
        \<lparr>autoCallNumbers = True, callInterval = 7000,
          winPatterns = [''row'', ''column'', ''diagonal'', ''four-corners'', ''full-house'']\<rparr>, server1)"
    unfolding b by (simp add: envAt_def demoRoom_def p4list_def)
  from prem1 ids have k: "map_option playerIds (getRoom ''lemin-lemin'' server1) = Some [''p1'']" by simp
  from c ids have l: "map_option playerIds (getRoom ''lemin-lemin''
        (fst (snd (handleMessage (envAt 3) 2 ''lemin-lemin'' newConn (Join (Some ''u'') (Some ''Bekele'')) server1))))
       = Some [''p1'', ''u'']" by simp
  from j k l show ?thesis by blast
qed

section \<open>Host migration\<close>

lemma keysAreIds_delete_head:
  assumes "keysAreIds room" "AList.delete pid (players room) = (k, p) # rest"
  shows "p_id p = k"
proof -
  have "(k, p) \<in> set (AList.delete pid (players room))" using assms(2) by simp
  then have "(k, p) \<in> set (players room)" by (simp add: AList.delete_eq)
  with assms(1) show ?thesis by (auto simp: keysAreIds_def list_all_iff)
qed

lemma delete_head_not_key:
  assumes "AList.delete pid al = (k, p) # rest"
  shows "pid \<notin> set (map fst ((k, p) # rest))"
  using delete_notin_dom[of pid al] unfolding assms by simp

lemma removePlayerFromRoom_last:
  assumes "getRoom rc s = Some room" "AList.delete pid (players room) = []"
  shows "removePlayerFromRoom env rc pid s =
           (s\<lparr>rooms := AList.update rc (room\<lparr>players := []\<rparr>) (rooms s),
              onlinePlayers := AList.delete pid (onlinePlayers s),
              timers := timers s @ [(now env + 300000, rc)]\<rparr>, [])"
  using assms
  by (simp add: removePlayerFromRoom_def getRoom_def removePlayer_def Let_def)

text \<open>
  C6, as the claim states it: when the host leaves and others remain, the host
  role goes to the remaining player with the earliest joinedAt.
  The code takes the first entry of the players map. After p1, p2 and p3 joined
  at times 1, 2 and 3 and p2 sent its join message again at time 4 (the map keeps
  p2's position, \<open>onlinePlayers\<close> gets the new joinedAt), the host p1 leaves: the
  new host is p2, whose joinedAt is 4, and not p3, whose joinedAt is 3.
\<close>

theorem new_host_not_earliest_joinedAt:
  "map_option (\<lambda>room. (hostId room, playerIds room)) (getRoom ''lemin-lemin'' serverHostLeft)
     = Some (''p2'', [''p2'', ''p3''])
   \<and> joinedAtOf serverHostLeft ''p2'' = Some 4
   \<and> joinedAtOf serverHostLeft ''p3'' = Some 3"
  by (simp add: serverHostLeft_def serverRejoined_def eval_defs join_defs leave_defs
      playerIds_def joinedAtOf_def)

text \<open>
  C6, amended: when the host leaves while at least one other player remains, the
  host role goes to the first remaining player in the order of the room's players
  map, that player is flagged as host, a newHost message naming it is sent to
  every remaining player whose socket is open, the new hostId is the id of a
  player present in the room, and no timer is registered. When the host leaves an
  otherwise empty room, hostId keeps the id of the player who left, which is the
  id of no present player, nothing is sent, and the eviction timer is registered
  for 300000 ms later.
\<close>

theorem host_leaves_first_remaining_takes_over:
  "(getRoom rc s = Some room \<and> hostId room = pid \<and> keysAreIds room
      \<and> AList.delete pid (players room) = (k, p) # rest \<longrightarrow>
      (\<exists>room'. getRoom rc (fst (removePlayerFromRoom env rc pid s)) = Some room'
         \<and> hostId room' = k \<and> hostName room' = p_name p
         \<and> players room' = (k, p\<lparr>p_isHost := True\<rparr>) # rest
         \<and> hostId room' \<in> set (playerIds room') \<and> pid \<notin> set (playerIds room')
         \<and> snd (removePlayerFromRoom env rc pid s) =
             map (\<lambda>(j, q). (p_socket q, NewHost k (p_name p) (now env)))
               (filter (\<lambda>(j, q). isOpen env (p_socket q)) (players room'))
         \<and> timers (fst (removePlayerFromRoom env rc pid s)) = timers s))
   \<and> (getRoom rc s = Some room \<and> hostId room = pid \<and> AList.delete pid (players room) = [] \<longrightarrow>
      (\<exists>room'. getRoom rc (fst (removePlayerFromRoom env rc pid s)) = Some room'
         \<and> players room' = [] \<and> hostId room' = pid \<and> hostId room' \<notin> set (playerIds room')
         \<and> snd (removePlayerFromRoom env rc pid s) = []
         \<and> timers (fst (removePlayerFromRoom env rc pid s)) = timers s @ [(now env + 300000, rc)]))"
proof (intro conjI impI)
  assume a: "getRoom rc s = Some room \<and> hostId room = pid \<and> keysAreIds room
      \<and> AList.delete pid (players room) = (k, p) # rest"
  then have id: "p_id p = k" using keysAreIds_delete_head by blast
  from a have nk: "pid \<noteq> k" "pid \<notin> fst ` set rest" using delete_head_not_key[of pid "players room" k p rest] by auto
  let ?room' = "room\<lparr>players := (k, p\<lparr>p_isHost := True\<rparr>) # rest, hostId := k, hostName := p_name p\<rparr>"
  have res: "removePlayerFromRoom env rc pid s =
     (s\<lparr>rooms := AList.update rc ?room' (rooms s), onlinePlayers := AList.delete pid (onlinePlayers s)\<rparr>,
      map (\<lambda>(j, q). (p_socket q, NewHost k (p_name p) (now env)))
               (filter (\<lambda>(j, q). isOpen env (p_socket q)) (players ?room')))"
    using a id
    by (simp add: removePlayerFromRoom_def getRoom_def removePlayer_def Let_def rm_broadcastToRoom_def update_conv')
  show "\<exists>room'. getRoom rc (fst (removePlayerFromRoom env rc pid s)) = Some room'
         \<and> hostId room' = k \<and> hostName room' = p_name p
         \<and> players room' = (k, p\<lparr>p_isHost := True\<rparr>) # rest
         \<and> hostId room' \<in> set (playerIds room') \<and> pid \<notin> set (playerIds room')
         \<and> snd (removePlayerFromRoom env rc pid s) =
             map (\<lambda>(j, q). (p_socket q, NewHost k (p_name p) (now env)))
               (filter (\<lambda>(j, q). isOpen env (p_socket q)) (players room'))
         \<and> timers (fst (removePlayerFromRoom env rc pid s)) = timers s"
    unfolding res using nk
    by (intro exI[of _ ?room']) (simp add: getRoom_def update_conv' playerIds_def)
next
  assume a: "getRoom rc s = Some room \<and> hostId room = pid \<and> AList.delete pid (players room) = []"
  then have res: "removePlayerFromRoom env rc pid s =
           (s\<lparr>rooms := AList.update rc (room\<lparr>players := []\<rparr>) (rooms s),
              onlinePlayers := AList.delete pid (onlinePlayers s),
              timers := timers s @ [(now env + 300000, rc)]\<rparr>, [])"
    by (simp add: removePlayerFromRoom_last)
  show "\<exists>room'. getRoom rc (fst (removePlayerFromRoom env rc pid s)) = Some room'
         \<and> players room' = [] \<and> hostId room' = pid \<and> hostId room' \<notin> set (playerIds room')
         \<and> snd (removePlayerFromRoom env rc pid s) = []
         \<and> timers (fst (removePlayerFromRoom env rc pid s)) = timers s @ [(now env + 300000, rc)]"
    unfolding res using a
    by (intro exI[of _ "room\<lparr>players := []\<rparr>"]) (simp add: getRoom_def update_conv' playerIds_def)
qed


theorem host_leaves_first_remaining_takes_over_witness:
  "map_option (\<lambda>room. (hostId room, playerIds room))
      (getRoom ''lemin-lemin'' (fst (removePlayerFromRoom (envAt 5) ''lemin-lemin'' ''p1'' server4)))
     = Some (''p2'', [''p2'', ''p3'', ''p4''])
   \<and> snd (removePlayerFromRoom (envAt 5) ''lemin-lemin'' ''p1'' server4)
     = [(2, NewHost ''p2'' ''p2'' 5), (3, NewHost ''p2'' ''p2'' 5), (4, NewHost ''p2'' ''p2'' 5)]
   \<and> map_option (\<lambda>room. (hostId room, playerIds room))
      (getRoom ''lemin-lemin'' (fst (removePlayerFromRoom (envAt 10) ''lemin-lemin'' ''p1'' server1)))
     = Some (''p1'', [])
   \<and> timers (fst (removePlayerFromRoom (envAt 10) ''lemin-lemin'' ''p1'' server1)) = [(300010, ''lemin-lemin'')]"
proof -
  let ?room4 = "demoRoom\<lparr>hostId := ''p1'', hostName := ''p1'', players := take 4 p4list, gameStarted := False\<rparr>"
  let ?p2 = "\<lparr>p_id = ''p2'', p_name = ''p2'', p_socket = 2, p_isHost = False, p_isReady = False, p_score = 0\<rparr>"
  let ?rest = "[(''p3'', \<lparr>p_id = ''p3'', p_name = ''p3'', p_socket = 3, p_isHost = False, p_isReady = False, p_score = 0\<rparr>),
      (''p4'', \<lparr>p_id = ''p4'', p_name = ''p4'', p_socket = 4, p_isHost = False, p_isReady = False, p_score = 0\<rparr>)]"
  have prem4: "getRoom ''lemin-lemin'' server4 = Some ?room4 \<and> hostId ?room4 = ''p1'' \<and> keysAreIds ?room4
      \<and> AList.delete ''p1'' (players ?room4) = (''p2'', ?p2) # ?rest"
    by (simp add: getRoom_def server4_eq serverWith_def p4list_def keysAreIds_def AList.delete_eq)
  from host_leaves_first_remaining_takes_over[of "''lemin-lemin''" server4 ?room4 "''p1''" "''p2''" ?p2 ?rest "envAt 5"] prem4
  obtain room' where r4: "getRoom ''lemin-lemin'' (fst (removePlayerFromRoom (envAt 5) ''lemin-lemin'' ''p1'' server4)) = Some room'"
     "hostId room' = ''p2''" "players room' = (''p2'', ?p2\<lparr>p_isHost := True\<rparr>) # ?rest"
     "snd (removePlayerFromRoom (envAt 5) ''lemin-lemin'' ''p1'' server4) =
             map (\<lambda>(j, q). (p_socket q, NewHost ''p2'' (p_name ?p2) (now (envAt 5))))
               (filter (\<lambda>(j, q). isOpen (envAt 5) (p_socket q)) (players room'))"
    by blast
  have a: "map_option (\<lambda>room. (hostId room, playerIds room))
      (getRoom ''lemin-lemin'' (fst (removePlayerFromRoom (envAt 5) ''lemin-lemin'' ''p1'' server4)))
     = Some (''p2'', [''p2'', ''p3'', ''p4''])"
    by (simp add: r4 playerIds_def)
  have b: "snd (removePlayerFromRoom (envAt 5) ''lemin-lemin'' ''p1'' server4)
     = [(2, NewHost ''p2'' ''p2'' 5), (3, NewHost ''p2'' ''p2'' 5), (4, NewHost ''p2'' ''p2'' 5)]"
    unfolding r4(4) r4(3) by (simp add: envAt_def)
  let ?room1 = "demoRoom\<lparr>hostId := ''p1'', hostName := ''p1'', players := take 1 p4list, gameStarted := False\<rparr>"
  have prem1: "getRoom ''lemin-lemin'' server1 = Some ?room1 \<and> hostId ?room1 = ''p1''
      \<and> AList.delete ''p1'' (players ?room1) = []"
    by (simp add: getRoom_def server1_eq serverWith_def p4list_def AList.delete_eq)
  from host_leaves_first_remaining_takes_over[of "''lemin-lemin''" server1 ?room1 "''p1''" _ _ _ "envAt 10"] prem1
  obtain room1' where r1: "getRoom ''lemin-lemin'' (fst (removePlayerFromRoom (envAt 10) ''lemin-lemin'' ''p1'' server1)) = Some room1'"
     "hostId room1' = ''p1''" "players room1' = []"
     "timers (fst (removePlayerFromRoom (envAt 10) ''lemin-lemin'' ''p1'' server1)) = timers server1 @ [(now (envAt 10) + 300000, ''lemin-lemin'')]"
    by blast
  have c: "map_option (\<lambda>room. (hostId room, playerIds room))
      (getRoom ''lemin-lemin'' (fst (removePlayerFromRoom (envAt 10) ''lemin-lemin'' ''p1'' server1)))
     = Some (''p1'', [])"
    by (simp add: r1 playerIds_def)
  have d: "timers (fst (removePlayerFromRoom (envAt 10) ''lemin-lemin'' ''p1'' server1)) = [(300010, ''lemin-lemin'')]"
    unfolding r1(4) by (simp add: envAt_def server1_eq serverWith_def)
  from a b c d show ?thesis by blast
qed

section \<open>Eviction\<close>

lemma evictionCheck_keeps_inhabited:
  assumes "getRoom rc s = Some room" "players room \<noteq> []"
  shows "getRoom rc (evictionCheck c s) = Some room"
proof (cases "c = rc")
  case True
  with assms show ?thesis by (simp add: evictionCheck_def getRoom_def)
next
  case False
  with assms show ?thesis
    by (simp add: evictionCheck_def getRoom_def delete_conv split: option.splits)
qed

lemma evictionCheck_inhabited_id:
  assumes "getRoom rc s = Some room" "players room \<noteq> []"
  shows "evictionCheck rc s = s"
  using assms by (simp add: evictionCheck_def getRoom_def)

lemma fold_checks_keep_inhabited:
  assumes "players room \<noteq> []"
  shows "getRoom rc s = Some room \<Longrightarrow> getRoom rc (fold (\<lambda>(d, c). evictionCheck c) due s) = Some room"
proof (induction due arbitrary: s)
  case Nil
  then show ?case by simp
next
  case (Cons x due)
  obtain d c where x: "x = (d, c)" by (cases x)
  have "getRoom rc (evictionCheck c s) = Some room"
    using Cons.prems assms by (rule evictionCheck_keeps_inhabited)
  then show ?case using Cons.IH by (simp add: x)
qed

lemma evictionCheck_keeps_gone: "gone rc s \<Longrightarrow> gone rc (evictionCheck c s)"
  by (cases "c = rc") (auto simp: gone_def evictionCheck_def getRoom_def delete_conv split: option.splits)

lemma fold_checks_keep_gone: "gone rc s \<Longrightarrow> gone rc (fold (\<lambda>(d, c). evictionCheck c) due s)"
proof (induction due arbitrary: s)
  case Nil
  then show ?case by simp
next
  case (Cons x due)
  obtain d c where x: "x = (d, c)" by (cases x)
  from Cons.prems have "gone rc (evictionCheck c s)" by (rule evictionCheck_keeps_gone)
  then show ?case using Cons.IH by (simp add: x)
qed

lemma evictionCheck_empty_gone:
  assumes "getRoom rc s = Some room" "players room = []"
  shows "gone rc (evictionCheck rc s)"
  using assms by (simp add: gone_def evictionCheck_def getRoom_def delete_conv)

lemma evictionCheck_other_keeps:
  assumes "getRoom rc s = Some room" "c \<noteq> rc"
  shows "getRoom rc (evictionCheck c s) = Some room"
  using assms by (simp add: evictionCheck_def getRoom_def delete_conv split: option.splits)

lemma fold_checks_remove_empty:
  assumes "players room = []"
  shows "getRoom rc s = Some room \<Longrightarrow> (d, rc) \<in> set due
     \<Longrightarrow> gone rc (fold (\<lambda>(d, c). evictionCheck c) due s)"
proof (induction due arbitrary: s)
  case Nil
  then show ?case by simp
next
  case (Cons x due)
  obtain d' c where x: "x = (d', c)" by (cases x)
  show ?case
  proof (cases "c = rc")
    case True
    have "gone rc (evictionCheck rc s)"
      using Cons.prems(1) assms by (rule evictionCheck_empty_gone)
    then have "gone rc (fold (\<lambda>(d, c). evictionCheck c) due (evictionCheck rc s))"
      by (rule fold_checks_keep_gone)
    then show ?thesis by (simp add: x True)
  next
    case False
    with Cons.prems(2) x have mem: "(d, rc) \<in> set due" by auto
    have "getRoom rc (evictionCheck c s) = Some room"
      using Cons.prems(1) False by (rule evictionCheck_other_keeps)
    from Cons.IH[OF this mem] show ?thesis by (simp add: x)
  qed
qed

lemma advanceTo_keeps_inhabited:
  assumes "getRoom rc s = Some room" "players room \<noteq> []"
  shows "getRoom rc (advanceTo t s) = Some room"
proof -
  have "getRoom rc (s\<lparr>timers := filter (\<lambda>(d, c). \<not> d \<le> t) (timers s)\<rparr>) = Some room"
    using assms(1) by (simp add: getRoom_def)
  then show ?thesis
    unfolding advanceTo_def Let_def using assms(2) by (intro fold_checks_keep_inhabited)
qed

lemma advanceTo_removes_empty:
  assumes "getRoom rc s = Some room" "players room = []" "(d, rc) \<in> set (timers s)" "d \<le> t"
  shows "gone rc (advanceTo t s)"
proof -
  have r: "getRoom rc (s\<lparr>timers := filter (\<lambda>(d, c). \<not> d \<le> t) (timers s)\<rparr>) = Some room"
    using assms(1) by (simp add: getRoom_def)
  have m: "(d, rc) \<in> set (filter (\<lambda>(d, c). d \<le> t) (timers s))"
    using assms(3,4) by simp
  show ?thesis
    unfolding advanceTo_def Let_def using assms(2) r m by (rule fold_checks_remove_empty)
qed

text \<open>
  C9, as the claim states it: a room that regained at least one player before the
  grace window elapsed is never removed by that window's check.
  The code: the room empties at time 10 (check due at 300010), regains p2 at time
  20 and empties again at time 30 (second check due at 300030). The first check
  finds the room empty and removes it, 299980 ms after it last held a player.
\<close>

theorem eviction_after_rejoin_and_leave:
  "map_option playerIds (getRoom ''lemin-lemin'' serverRegained) = Some [''p2'']
   \<and> map_option playerIds (getRoom ''lemin-lemin'' serverEmptiedAgain) = Some []
   \<and> timers serverEmptiedAgain = [(300010, ''lemin-lemin''), (300030, ''lemin-lemin'')]
   \<and> getRoom ''lemin-lemin'' (advanceTo 300010 serverEmptiedAgain) = None"
  by (simp add: getRoom_def serverRegained_rooms serverEmptiedAgain_rooms playerIds_def demoRoom_def
      advanceTo_def evictionCheck_def AList.delete_eq)

text \<open>
  C9, amended: the deferred check removes the room exactly when the room has no
  players at the moment the check fires. A room that holds at least one player
  when checks fire is left as it is, however many checks are pending for it; an
  empty room with a check that is due is removed from the registry and its code
  is freed; in particular a room whose last player leaves, and where nothing else
  happens, is gone once 300000 ms have passed.
\<close>

theorem eviction_check_revalidates:
  "(getRoom rc s = Some room \<and> players room \<noteq> [] \<longrightarrow>
      evictionCheck rc s = s \<and> getRoom rc (advanceTo t s) = Some room)
   \<and> (getRoom rc s = Some room \<and> players room = [] \<and> (d, rc) \<in> set (timers s) \<and> d \<le> t \<longrightarrow>
        getRoom rc (advanceTo t s) = None \<and> map_of (roomCodes (advanceTo t s)) rc = None)
   \<and> (getRoom rc s = Some room \<and> AList.delete pid (players room) = [] \<longrightarrow>
        (now env + 300000, rc) \<in> set (timers (fst (removePlayerFromRoom env rc pid s)))
        \<and> getRoom rc (advanceTo (now env + 300000) (fst (removePlayerFromRoom env rc pid s))) = None
        \<and> map_of (roomCodes (advanceTo (now env + 300000) (fst (removePlayerFromRoom env rc pid s)))) rc = None)"
proof (intro conjI impI)
  assume a: "getRoom rc s = Some room \<and> players room \<noteq> []"
  then show "evictionCheck rc s = s" by (simp add: evictionCheck_inhabited_id)
  from a show "getRoom rc (advanceTo t s) = Some room" by (simp add: advanceTo_keeps_inhabited)
next
  assume a: "getRoom rc s = Some room \<and> players room = [] \<and> (d, rc) \<in> set (timers s) \<and> d \<le> t"
  then have "gone rc (advanceTo t s)" by (intro advanceTo_removes_empty[of rc s room d t]) simp_all
  then show "getRoom rc (advanceTo t s) = None" "map_of (roomCodes (advanceTo t s)) rc = None"
    by (simp_all add: gone_def)
next
  assume a: "getRoom rc s = Some room \<and> AList.delete pid (players room) = []"
  let ?s' = "fst (removePlayerFromRoom env rc pid s)"
  have s': "?s' = s\<lparr>rooms := AList.update rc (room\<lparr>players := []\<rparr>) (rooms s),
              onlinePlayers := AList.delete pid (onlinePlayers s),
              timers := timers s @ [(now env + 300000, rc)]\<rparr>"
    using a by (simp add: removePlayerFromRoom_last)
  show t: "(now env + 300000, rc) \<in> set (timers ?s')" by (simp add: s')
  have r: "getRoom rc ?s' = Some (room\<lparr>players := []\<rparr>)"
    by (simp add: s' getRoom_def update_conv')
  have "gone rc (advanceTo (now env + 300000) ?s')"
    using r _ t by (rule advanceTo_removes_empty) simp_all
  then show "getRoom rc (advanceTo (now env + 300000) ?s') = None"
    "map_of (roomCodes (advanceTo (now env + 300000) ?s')) rc = None"
    by (simp_all add: gone_def)
qed

theorem eviction_check_revalidates_witness:
  "timers serverRegainedAgain = [(300010, ''lemin-lemin''), (300030, ''lemin-lemin'')]
   \<and> map_option playerIds (getRoom ''lemin-lemin'' (advanceTo 300030 serverRegainedAgain)) = Some [''p3'']
   \<and> getRoom ''lemin-lemin'' (advanceTo 300010 serverEmptied) = None
   \<and> getRoom ''lemin-lemin'' (advanceTo 300010 (fst (removePlayerFromRoom (envAt 10) ''lemin-lemin'' ''p1'' server1))) = None"
proof -
  let ?room = "demoRoom\<lparr>hostId := ''p3'', hostName := ''p3'',
       players := [(''p3'', \<lparr>p_id = ''p3'', p_name = ''p3'', p_socket = 3, p_isHost = True, p_isReady = False, p_score = 0\<rparr>)]\<rparr>"
  have p1: "getRoom ''lemin-lemin'' serverRegainedAgain = Some ?room \<and> players ?room \<noteq> []"
    by (simp add: getRoom_def serverRegainedAgain_rooms)
  from eviction_check_revalidates[of "''lemin-lemin''" serverRegainedAgain ?room 300030] p1
  have a: "getRoom ''lemin-lemin'' (advanceTo 300030 serverRegainedAgain) = Some ?room" by blast
  let ?room0 = "demoRoom\<lparr>hostId := ''p1'', hostName := ''p1'', players := [], gameStarted := False\<rparr>"
  have p2: "getRoom ''lemin-lemin'' serverEmptied = Some ?room0 \<and> players ?room0 = []
      \<and> (300010, ''lemin-lemin'') \<in> set (timers serverEmptied) \<and> (300010::nat) \<le> 300010"
    by (simp add: getRoom_def serverEmptied_eq serverWith_def)
  from eviction_check_revalidates[of "''lemin-lemin''" serverEmptied ?room0 300010 300010] p2
  have b: "getRoom ''lemin-lemin'' (advanceTo 300010 serverEmptied) = None" by blast
  let ?room1 = "demoRoom\<lparr>hostId := ''p1'', hostName := ''p1'', players := take 1 p4list, gameStarted := False\<rparr>"
  have p3: "getRoom ''lemin-lemin'' server1 = Some ?room1 \<and> AList.delete ''p1'' (players ?room1) = []"
    by (simp add: getRoom_def server1_eq serverWith_def p4list_def AList.delete_eq)
  from eviction_check_revalidates[of "''lemin-lemin''" server1 ?room1 _ _ "''p1''" "envAt 10"] p3
  have "getRoom ''lemin-lemin'' (advanceTo (now (envAt 10) + 300000) (fst (removePlayerFromRoom (envAt 10) ''lemin-lemin'' ''p1'' server1))) = None"
    by blast
  then have c: "getRoom ''lemin-lemin'' (advanceTo 300010 (fst (removePlayerFromRoom (envAt 10) ''lemin-lemin'' ''p1'' server1))) = None"
    by (simp add: envAt_def)
  from a have a': "map_option playerIds (getRoom ''lemin-lemin'' (advanceTo 300030 serverRegainedAgain)) = Some [''p3'']"
    by (simp add: playerIds_def)
  from a' b c serverRegainedAgain_rooms(2) show ?thesis by blast
qed

section \<open>Room codes\<close>

lemma loop_unfold:
  "generateRoomCode_loop rnd k codes =
     (if freeAt rnd codes k then Some (codeAt rnd k) else generateRoomCode_loop rnd (Suc k) codes)"
  by (subst generateRoomCode_loop.simps) (simp add: freeAt_def codeAt_def Let_def)

lemma loop_returns_first_free:
  assumes "freeAt rnd codes j" and "\<forall>i. k \<le> i \<and> i < j \<longrightarrow> \<not> freeAt rnd codes i" and "k \<le> j"
  shows "generateRoomCode_loop rnd k codes = Some (codeAt rnd j)"
  using assms
proof (induction "j - k" arbitrary: k)
  case 0
  then have "k = j" by simp
  with 0 show ?case by (subst loop_unfold) simp
next
  case (Suc d)
  then have lt: "k < j" by simp
  with Suc.prems have nf: "\<not> freeAt rnd codes k" by simp
  have "generateRoomCode_loop rnd (Suc k) codes = Some (codeAt rnd j)"
    using Suc.hyps(1)[of "Suc k"] Suc.hyps(2) Suc.prems lt by simp
  with nf show ?case by (subst loop_unfold) simp
qed

lemma loop_result_is_free:
  assumes "generateRoomCode_loop rnd k codes = Some c"
  shows "\<exists>j\<ge>k. freeAt rnd codes j"
proof (rule generateRoomCode_loop.raw_induct
    [where P = "\<lambda>rnd k codes c. \<exists>j\<ge>k. freeAt rnd codes j", OF _ assms])
  fix f :: "(nat \<Rightarrow> real) \<Rightarrow> nat \<Rightarrow> (string \<times> string) list \<Rightarrow> string option"
  fix rnd k codes c
  assume IH: "\<And>rnd k codes c. f rnd k codes = Some c \<Longrightarrow> \<exists>j\<ge>k. freeAt rnd codes j"
  assume step: "(let code = drawCode (rnd (2 * k)) (rnd (2 * k + 1))
      in if map_of codes code \<noteq> None then f rnd (Suc k) codes else Some code) = Some c"
  show "\<exists>j\<ge>k. freeAt rnd codes j"
  proof (cases "freeAt rnd codes k")
    case True
    then show ?thesis by blast
  next
    case False
    with step have "f rnd (Suc k) codes = Some c"
      by (simp add: freeAt_def codeAt_def Let_def split: if_splits)
    from IH[OF this] obtain j where "Suc k \<le> j" "freeAt rnd codes j" by blast
    then show ?thesis by (intro exI[of _ j]) simp
  qed
qed

lemma loop_never_returns:
  "\<forall>j\<ge>k. \<not> freeAt rnd codes j \<Longrightarrow> generateRoomCode_loop rnd k codes = None"
  using loop_result_is_free[of rnd k codes] by (cases "generateRoomCode_loop rnd k codes") auto


lemma wordAt_in_words:
  assumes "0 \<le> r" "r < 1"
  shows "wordAt \<lfloor>r * real (length words)\<rfloor> \<in> set words"
proof -
  have len: "length words = 12" by (simp add: words_def)
  have lo: "0 \<le> \<lfloor>r * 12\<rfloor>" using assms by simp
  have hi: "\<lfloor>r * 12\<rfloor> < 12" using assms by (simp add: floor_less_iff)
  from lo hi have "nat \<lfloor>r * 12\<rfloor> < 12" by linarith
  then have "nat \<lfloor>r * 12\<rfloor> < length words" by (simp only: len)
  then have "words ! nat \<lfloor>r * 12\<rfloor> \<in> set words" by (rule nth_mem)
  with lo hi show ?thesis by (simp add: wordAt_def len)
qed

lemma allCodes_keys:
  assumes "w1 \<in> set words" "w2 \<in> set words"
  shows "map_of allCodes (w1 @ ''-'' @ w2) \<noteq> None"
proof -
  have "(w1 @ ''-'' @ w2, w1 @ ''-'' @ w2) \<in> set allCodes"
    using assms by (auto simp: allCodes_def)
  then have "w1 @ ''-'' @ w2 \<in> fst ` set allCodes" by force
  then show ?thesis by (simp add: map_of_eq_None_iff)
qed

lemma drawCode_taken:
  assumes "0 \<le> r1" "r1 < 1" "0 \<le> r2" "r2 < 1"
  shows "map_of allCodes (drawCode r1 r2) \<noteq> None"
  unfolding drawCode_def Let_def
  by (rule allCodes_keys) (simp_all add: wordAt_in_words assms)

text \<open>
  C8, as the claim states it: room-code generation terminates for every state of
  the live-code set, failing with ResourceExhausted when the vocabulary is used
  up, and does not loop without bound when every two-word combination is taken.
  The code with all 144 combinations live: the loop never returns.
\<close>

theorem generateRoomCode_exhausted_never_returns: "generateRoomCode zeroRandom (emptyServer\<lparr>roomCodes := allCodes\<rparr>) = None"
proof -
  have "\<forall>j\<ge>0. \<not> freeAt zeroRandom allCodes j"
    by (simp add: freeAt_def codeAt_def zeroRandom_def drawCode_taken)
  then have "generateRoomCode_loop zeroRandom 0 allCodes = None"
    by (rule loop_never_returns)
  then show ?thesis by (simp add: generateRoomCode_def)
qed

text \<open>
  C8, amended: \<open>generateRoomCode\<close> returns at the first iteration whose drawn
  combination is not live; the code it returns was not assigned to any live room
  and is recorded as live. It has no failure outcome: if no iteration draws a free
  combination it never returns, and that is so for every random sequence once all
  combinations of the vocabulary are live.
\<close>

theorem generateRoomCode_returns_first_free:
  "(freeAt rnd (roomCodes s) j \<and> (\<forall>i<j. \<not> freeAt rnd (roomCodes s) i) \<longrightarrow>
      generateRoomCode rnd s =
        Some (codeAt rnd j, s\<lparr>roomCodes := AList.update (codeAt rnd j) (codeAt rnd j) (roomCodes s)\<rparr>)
      \<and> map_of (roomCodes s) (codeAt rnd j) = None)
   \<and> ((\<forall>j. \<not> freeAt rnd (roomCodes s) j) \<longrightarrow> generateRoomCode rnd s = None)
   \<and> ((\<forall>k. 0 \<le> rnd k \<and> rnd k < 1) \<and> (\<forall>c. map_of allCodes c \<noteq> None \<longrightarrow> map_of (roomCodes s) c \<noteq> None) \<longrightarrow>
        generateRoomCode rnd s = None)"
proof (intro conjI impI)
  assume a: "freeAt rnd (roomCodes s) j \<and> (\<forall>i<j. \<not> freeAt rnd (roomCodes s) i)"
  then have "generateRoomCode_loop rnd 0 (roomCodes s) = Some (codeAt rnd j)"
    by (intro loop_returns_first_free) simp_all
  then show "generateRoomCode rnd s =
        Some (codeAt rnd j, s\<lparr>roomCodes := AList.update (codeAt rnd j) (codeAt rnd j) (roomCodes s)\<rparr>)"
    by (simp add: generateRoomCode_def)
  from a show "map_of (roomCodes s) (codeAt rnd j) = None" by (simp add: freeAt_def)
next
  assume "\<forall>j. \<not> freeAt rnd (roomCodes s) j"
  then have "generateRoomCode_loop rnd 0 (roomCodes s) = None"
    by (intro loop_never_returns) simp
  then show "generateRoomCode rnd s = None" by (simp add: generateRoomCode_def)
next
  assume a: "(\<forall>k. 0 \<le> rnd k \<and> rnd k < 1) \<and> (\<forall>c. map_of allCodes c \<noteq> None \<longrightarrow> map_of (roomCodes s) c \<noteq> None)"
  have "\<not> freeAt rnd (roomCodes s) j" for j
  proof -
    have "map_of allCodes (codeAt rnd j) \<noteq> None"
      unfolding codeAt_def using a by (intro drawCode_taken) simp_all
    with a show ?thesis unfolding freeAt_def by blast
  qed
  then have "generateRoomCode_loop rnd 0 (roomCodes s) = None"
    by (intro loop_never_returns) simp
  then show "generateRoomCode rnd s = None" by (simp add: generateRoomCode_def)
qed

theorem generateRoomCode_returns_first_free_witness:
  "generateRoomCode zeroRandom emptyServer =
     Some (''lemin-lemin'', emptyServer\<lparr>roomCodes := [(''lemin-lemin'', ''lemin-lemin'')]\<rparr>)
   \<and> generateRoomCode zeroRandom server0 = None
   \<and> generateRoomCode zeroRandom (server0\<lparr>roomCodes := allCodes\<rparr>) = None"
proof -
  have 1: "freeAt zeroRandom (roomCodes emptyServer) 0 \<and> (\<forall>i<0. \<not> freeAt zeroRandom (roomCodes emptyServer) i)"
    by (simp add: freeAt_def emptyServer_def)
  have 2: "\<forall>j. \<not> freeAt zeroRandom (roomCodes server0) j"
    by (simp add: freeAt_def codeAt_def zeroRandom_def drawCode_zero server0_def)
  have 3: "(\<forall>k. 0 \<le> zeroRandom k \<and> zeroRandom k < 1)
      \<and> (\<forall>c. map_of allCodes c \<noteq> None \<longrightarrow> map_of (roomCodes (server0\<lparr>roomCodes := allCodes\<rparr>)) c \<noteq> None)"
    by (simp add: zeroRandom_def)
  have c: "codeAt zeroRandom 0 = ''lemin-lemin''"
    by (simp add: codeAt_def zeroRandom_def drawCode_zero)
  from generateRoomCode_returns_first_free[of zeroRandom emptyServer 0] 1
  have a: "generateRoomCode zeroRandom emptyServer =
     Some (''lemin-lemin'', emptyServer\<lparr>roomCodes := [(''lemin-lemin'', ''lemin-lemin'')]\<rparr>)"
    by (simp add: c emptyServer_def)
  from generateRoomCode_returns_first_free[of zeroRandom server0 0] 2
  have b: "generateRoomCode zeroRandom server0 = None" by blast
  from generateRoomCode_returns_first_free[of zeroRandom "server0\<lparr>roomCodes := allCodes\<rparr>" 0] 3
  have d: "generateRoomCode zeroRandom (server0\<lparr>roomCodes := allCodes\<rparr>) = None" by blast
  from a b d show ?thesis by blast
qed

end
